theory Spec2Isabelle
  imports Complex_Main "HOL-Library.Word" "HOL-Library.Multiset"
begin

section \<open>Data model\<close>

text \<open>
  The registration engine of mp2p_icp: \<^verbatim>\<open>ICP_Base::align\<close> and
  \<^verbatim>\<open>ICP_Base::prepareMatchingParams\<close> (ICP_Base.cpp), the per-iteration hook
  \<^verbatim>\<open>ICP_Horn_MultiCloud::impl_ICP_iteration\<close> (ICP_Horn_MultiCloud.cpp) and
  \<^verbatim>\<open>Matcher_Points_Base::match\<close> / \<^verbatim>\<open>transform_local_to_global\<close>
  (Matcher_Points_Base.cpp).

  Conventions of the embedding:
  \<^item> C++ \<^verbatim>\<open>float\<close>/\<^verbatim>\<open>double\<close> values are read as \<^typ>\<open>real\<close>; the properties
    below are about control flow, indices and integer quantities, not about rounding;
  \<^item> \<^verbatim>\<open>size_t\<close>/\<^verbatim>\<open>unsigned\<close> counts are \<^typ>\<open>nat\<close>, seeds are machine words;
  \<^item> a thrown exception (a failed \<^verbatim>\<open>ASSERT_\<close>, \<^verbatim>\<open>std::map::at\<close> on a
    missing key) and an undefined access (null dereference, out-of-range subscript) is
    the \<open>Inl\<close> branch of a result \<open>error + 'a\<close>;
  \<^item> a \<^verbatim>\<open>std::map\<close> that is iterated or tested for emptiness is an association list
    in iteration (key) order; one that is only subscripted is a map \<open>string \<rightharpoonup> 'v\<close>;
  \<^item> a \<^verbatim>\<open>CPointsMap::Ptr\<close> is an \<open>option\<close> (\<open>None\<close> is the null pointer) holding
    the list of the layer's points.
\<close>

datatype error =
    AssertionFailed    \<comment> \<open>\<^verbatim>\<open>ASSERT_\<close>, \<^verbatim>\<open>ASSERT_EQUAL_\<close>\<close>
  | OutOfRange         \<comment> \<open>\<^verbatim>\<open>std::map::at\<close> on a missing key\<close>
  | NullPointer        \<comment> \<open>\<^verbatim>\<open>operator->\<close> on an empty \<^verbatim>\<open>Ptr\<close>\<close>
  | OutOfBounds        \<comment> \<open>\<^verbatim>\<open>operator[]\<close> of a vector beyond its size\<close>

type_synonym point = "real \<times> real \<times> real"

type_synonym layer = "point list option"

text \<open>
  Modelled from the spec: the declaration of \<^verbatim>\<open>plane_patch_t\<close> (pointcloud.h) is not
  among the sources; a plane patch is a centroid with the plane in Hessian form.
\<close>

record plane_patch_t =
  centroid :: point
  plane_coefs :: "real \<times> real \<times> real \<times> real"

record pointcloud_t =
  point_layers :: "(string \<times> layer) list"
  planes :: "plane_patch_t list"

text \<open>
  Modelled from the spec: \<^verbatim>\<open>Pairings\<close> (declared in a header that is not among the
  sources) is an ordered sequence of point-point pairings (index into the global layer,
  index into the local layer), an ordered sequence of (pairing-count, weight) records, and
  the plane-plane and point-plane pairings.
\<close>

record Pairings =
  paired_points :: "(nat \<times> nat) list"
  point_weights :: "(nat \<times> real) list"
  paired_planes :: "(plane_patch_t \<times> plane_patch_t) list"
  paired_pt2pl :: "(plane_patch_t \<times> point) list"

definition Pairings_init :: Pairings where
  "Pairings_init =
     \<lparr>paired_points = [], point_weights = [], paired_planes = [], paired_pt2pl = []\<rparr>"

text \<open>
  Modelled from the spec: \<^verbatim>\<open>Pairings::empty()\<close> is not among the sources; it holds
  when no pairing of any kind is stored.
\<close>

definition Pairings_empty :: "Pairings \<Rightarrow> bool" where
  "Pairings_empty prs \<longleftrightarrow>
     paired_points prs = [] \<and> paired_planes prs = [] \<and> paired_pt2pl prs = []"

record TMatchingParams =
  maxDistForCorrespondence :: real
  maxAngularDistForCorrespondence :: real
  onlyKeepTheClosest :: bool
  onlyUniqueRobust :: bool
  decimation_other_map_points :: nat
  offset_other_map_points :: nat

record TMatchingExtraResults =
  correspondencesRatio :: real
  sumSqrDist :: real

text \<open>
  Modelled from the spec: Parameters.h and Results.h are not among the sources. The
  fields are the options and outputs that the specification lists and the code reads
  and writes; \<open>'w\<close> is the solver-specific configuration, handed through opaquely.
\<close>

record 'w Parameters =
  maxIterations :: nat
  thresholdDist :: real
  thresholdAng :: real
  maxPairsPerLayer :: nat
  minAbsStep_trans :: real
  minAbsStep_rot :: real
  weight_pt2pt_layers :: "(string \<times> real) list"
  pairingsWeightParameters :: 'w

text \<open>
  Modelled from the spec: IterTermReason.h is not among the sources. The termination
  reason is one of \<open>MaxIterations\<close>, \<open>Stalled\<close>, \<open>NoPairings\<close>, the three
  values that \<^verbatim>\<open>align\<close> assigns; \<open>Undefined\<close> stands for the value of a fresh
  \<^verbatim>\<open>Results()\<close> to which no reason has been assigned yet.
\<close>

datatype IterTermReason = Undefined | NoPairings | MaxIterations | Stalled

record 'pose Results =
  nIterations :: nat
  terminationReason :: IterTermReason
  goodness :: real
  optimal_tf :: 'pose
  optimal_scale :: real

text \<open>
  \<^verbatim>\<open>ICP_State\<close> as ICP_Base.h declares it, with the two per-layer tables
  \<^verbatim>\<open>mps\<close> and \<^verbatim>\<open>mres\<close> that ICP_Base.cpp reads and writes.
\<close>

record 'pose ICP_State =
  pc1 :: pointcloud_t
  pc2 :: pointcloud_t
  layerOfLargestPc :: string
  currentPairings :: Pairings
  current_solution :: 'pose
  current_scale :: real
  mps :: "string \<rightharpoonup> TMatchingParams"
  mres :: "string \<rightharpoonup> TMatchingExtraResults"

record 'pose ICP_iteration_result =
  success :: bool
  new_solution :: 'pose
  new_scale :: real

record TransformedLocalPointCloud =
  localMin :: point
  localMax :: point
  idxs :: "nat list option"
  x_locals :: "real list"
  y_locals :: "real list"
  z_locals :: "real list"

text \<open>
  What the code takes from outside the repository (MRPT, the C++ library) or from headers
  that are not among the sources, as parameters: the reserved layer name, the
  default-constructed matching parameters and pose, inverse pose composition
  (\<^verbatim>\<open>operator-\<close> of \<^verbatim>\<open>CPose3D\<close>), the logarithm map of SE(3) (a 6-vector, translation
  block first), \<^verbatim>\<open>CPose3D::composePoint\<close>, \<^verbatim>\<open>std::shuffle\<close> driven by a
  \<^verbatim>\<open>std::default_random_engine\<close> built from a 32-bit seed, and the largest float.
\<close>

record 'pose mrpt =
  PT_LAYER_PLANE_CENTROIDS :: string
  TMatchingParams_default :: TMatchingParams
  CPose3D_default :: 'pose
  pose_minus :: "'pose \<Rightarrow> 'pose \<Rightarrow> 'pose"
  SE3_log :: "'pose \<Rightarrow> real list"
  composePoint :: "'pose \<Rightarrow> point \<Rightarrow> point"
  std_shuffle :: "32 word \<Rightarrow> nat list \<Rightarrow> nat list"
  fMax :: real

section \<open>Matcher_Points_Base::transform_local_to_global\<close>

definition TransformedLocalPointCloud_init :: "'pose mrpt \<Rightarrow> TransformedLocalPointCloud" where
  "TransformedLocalPointCloud_init ext =
     \<lparr>localMin = (fMax ext, fMax ext, fMax ext),
      localMax = (- fMax ext, - fMax ext, - fMax ext),
      idxs = None, x_locals = [], y_locals = [], z_locals = []\<rparr>"

definition lambdaKeepBBox :: "TransformedLocalPointCloud \<Rightarrow> point \<Rightarrow> TransformedLocalPointCloud" where
  "lambdaKeepBBox r q =
     (case q of (x, y, z) \<Rightarrow>
      case localMax r of (hx, hy, hz) \<Rightarrow>
      case localMin r of (lx, ly, lz) \<Rightarrow>
        r\<lparr>localMax := (max hx x, max hy y, max hz z),
          localMin := (min lx x, min ly y, min lz z)\<rparr>)"

definition at_index :: "'a list \<Rightarrow> nat \<Rightarrow> error + 'a" where
  "at_index xs i = (if i < length xs then Inr (xs ! i) else Inl OutOfBounds)"

text \<open>
  Both loops of the function: for each position \<open>ri\<close> the source index is \<open>sel ri\<close>
  (\<open>ri\<close> itself when every point is taken, \<^verbatim>\<open>(*r.idxs)[ri]\<close> for a subset); point
  \<open>sel ri\<close> is composed with the pose, stored at position \<open>ri\<close> and added to the
  bounding box.
\<close>

fun compose_loop ::
  "(point \<Rightarrow> point) \<Rightarrow> point list \<Rightarrow> (nat \<Rightarrow> error + nat) \<Rightarrow> nat list \<Rightarrow>
   TransformedLocalPointCloud \<Rightarrow> error + TransformedLocalPointCloud" where
  "compose_loop cp pcLocal sel [] r = Inr r"
| "compose_loop cp pcLocal sel (ri # ris) r =
     (case sel ri of
        Inl e \<Rightarrow> Inl e
      | Inr i \<Rightarrow>
         (case at_index pcLocal i of
            Inl e \<Rightarrow> Inl e
          | Inr l \<Rightarrow>
             if ri < length (x_locals r) \<and> ri < length (y_locals r) \<and> ri < length (z_locals r)
             then (case cp l of (gx, gy, gz) \<Rightarrow>
                     compose_loop cp pcLocal sel ris
                       (lambdaKeepBBox
                          (r\<lparr>x_locals := (x_locals r)[ri := gx],
                             y_locals := (y_locals r)[ri := gy],
                             z_locals := (z_locals r)[ri := gz]\<rparr>)
                          (gx, gy, gz)))
             else Inl OutOfBounds))"

text \<open>
  \<open>now\<close> is the reading of \<^verbatim>\<open>system_clock::now().time_since_epoch().count()\<close>, the
  only input of the function that is not an argument. The seed of the engine is an
  \<^verbatim>\<open>unsigned int\<close>: the 64-bit values are cut to their low 32 bits.
\<close>

definition transform_local_to_global ::
  "'pose mrpt \<Rightarrow> point list \<Rightarrow> 'pose \<Rightarrow> nat \<Rightarrow> 64 word \<Rightarrow> 64 word \<Rightarrow>
   error + TransformedLocalPointCloud" where
  "transform_local_to_global ext pcLocal localPose maxLocalPoints localPointsSampleSeed now =
     (let r = TransformedLocalPointCloud_init ext;
          nLocalPoints = length pcLocal
      in if maxLocalPoints = 0 \<or> nLocalPoints \<le> maxLocalPoints
         then compose_loop (composePoint ext localPose) pcLocal Inr [0..<nLocalPoints]
                (r\<lparr>x_locals := replicate nLocalPoints 0,
                   y_locals := replicate nLocalPoints 0,
                   z_locals := replicate nLocalPoints 0\<rparr>)
         else
           let iota = [0..<maxLocalPoints];
               seed = (if localPointsSampleSeed \<noteq> 0
                       then (ucast localPointsSampleSeed :: 32 word)
                       else ucast now);
               shuffled = std_shuffle ext seed iota
           in compose_loop (composePoint ext localPose) pcLocal (at_index shuffled)
                [0..<maxLocalPoints]
                (r\<lparr>idxs := Some shuffled,
                   x_locals := replicate maxLocalPoints 0,
                   y_locals := replicate maxLocalPoints 0,
                   z_locals := replicate maxLocalPoints 0\<rparr>))"

section \<open>ICP_Base::prepareMatchingParams\<close>

text \<open>
  \<^verbatim>\<open>static_cast<unsigned>(d)\<close> of a non-negative double: the fraction is dropped
  and the value is kept to the 32 bits of an \<^verbatim>\<open>unsigned\<close>. The code makes no test
  before the conversion and the conversion does not fail.
\<close>

definition static_cast_unsigned :: "real \<Rightarrow> nat" where
  "static_cast_unsigned d = nat \<lfloor>d\<rfloor> mod 2 ^ 32"

text \<open>
  \<^verbatim>\<open>std::max(1U, static_cast<unsigned>(m1->size() / (1.0 * p.maxPairsPerLayer)))\<close>.
  With \<^verbatim>\<open>maxPairsPerLayer\<close> equal to 0 the quotient is not a finite number; the
  code has no guard for it, the conversion yields 0 and the stride is 1.
\<close>

definition decimation_stride :: "nat \<Rightarrow> nat \<Rightarrow> nat" where
  "decimation_stride layerSize maxPairs =
     max 1 (if maxPairs = 0 then 0
            else static_cast_unsigned (real layerSize / (1.0 * real maxPairs)))"

text \<open>
  \<^verbatim>\<open>state.mps[name]\<close>: \<^verbatim>\<open>operator[]\<close> inserts a default-constructed entry when
  the key is new.
\<close>

definition mps_subscript :: "'pose mrpt \<Rightarrow> (string \<rightharpoonup> TMatchingParams) \<Rightarrow> string \<Rightarrow> TMatchingParams" where
  "mps_subscript ext m name =
     (case m name of None \<Rightarrow> TMatchingParams_default ext | Some mp \<Rightarrow> mp)"

text \<open>
  The body of the loop over \<^verbatim>\<open>state.pc1.point_layers\<close>, for the layer \<open>(name, m1)\<close>;
  \<open>largest\<close> is the local \<^verbatim>\<open>pointCountLargestPc\<close>.
\<close>

definition prepare_layer ::
  "'pose mrpt \<Rightarrow> 'w Parameters \<Rightarrow> string \<times> layer \<Rightarrow> nat \<times> 'pose ICP_State \<Rightarrow>
   error + (nat \<times> 'pose ICP_State)" where
  "prepare_layer ext p kv1 acc =
     (case kv1 of (name, m1) \<Rightarrow>
      case acc of (largest, state) \<Rightarrow>
        let is_layer_of_planes = (name = PT_LAYER_PLANE_CENTROIDS ext);
            mp = mps_subscript ext (mps state) name;
            state0 = state\<lparr>mps := (mps state)(name \<mapsto> mp)\<rparr>
        in if \<not> is_layer_of_planes then
             if map_of (weight_pt2pt_layers p) name = None then Inr (largest, state0)
             else
               (case m1 of
                  None \<Rightarrow> Inl AssertionFailed
                | Some pts \<Rightarrow>
                    let largest1 = (if length pts > largest then length pts else largest);
                        state1 = (if length pts > largest
                                  then state0\<lparr>layerOfLargestPc := name\<rparr> else state0)
                    in Inr (largest1,
                            state1\<lparr>mps := (mps state1)(name \<mapsto>
                              mp\<lparr>maxDistForCorrespondence := thresholdDist p,
                                 maxAngularDistForCorrespondence := thresholdAng p,
                                 onlyKeepTheClosest := True,
                                 onlyUniqueRobust := False,
                                 decimation_other_map_points :=
                                   decimation_stride (length pts) (maxPairsPerLayer p),
                                 offset_other_map_points := 0\<rparr>)\<rparr>))
           else
             Inr (largest,
                  state0\<lparr>mps := (mps state0)(name \<mapsto>
                    mp\<lparr>maxDistForCorrespondence := thresholdDist p + 2.0,
                       maxAngularDistForCorrespondence := 0,
                       onlyKeepTheClosest := True,
                       decimation_other_map_points := 1\<rparr>)\<rparr>))"

fun prepare_loop ::
  "'pose mrpt \<Rightarrow> 'w Parameters \<Rightarrow> (string \<times> layer) list \<Rightarrow> nat \<times> 'pose ICP_State \<Rightarrow>
   error + (nat \<times> 'pose ICP_State)" where
  "prepare_loop ext p [] acc = Inr acc"
| "prepare_loop ext p (kv1 # rest) acc =
     (case prepare_layer ext p kv1 acc of
        Inl e \<Rightarrow> Inl e
      | Inr acc1 \<Rightarrow> prepare_loop ext p rest acc1)"

definition prepareMatchingParams ::
  "'pose mrpt \<Rightarrow> 'pose ICP_State \<Rightarrow> 'w Parameters \<Rightarrow> error + 'pose ICP_State" where
  "prepareMatchingParams ext state p =
     (case prepare_loop ext p (point_layers (pc1 state)) (0, state) of
        Inl e \<Rightarrow> Inl e
      | Inr (pointCountLargestPc, state1) \<Rightarrow> Inr state1)"

section \<open>ICP_Base::align\<close>

definition ICP_State_init :: "'pose mrpt \<Rightarrow> pointcloud_t \<Rightarrow> pointcloud_t \<Rightarrow> 'pose ICP_State" where
  "ICP_State_init ext pcs1 pcs2 =
     \<lparr>pc1 = pcs1, pc2 = pcs2, layerOfLargestPc = [], currentPairings = Pairings_init,
      current_solution = CPose3D_default ext, current_scale = 1.0,
      mps = Map.empty, mres = Map.empty\<rparr>"

definition ICP_iteration_result_init :: "'pose mrpt \<Rightarrow> 'pose ICP_iteration_result" where
  "ICP_iteration_result_init ext =
     \<lparr>success = False, new_solution = CPose3D_default ext, new_scale = 1.0\<rparr>"

text \<open>
  Modelled from the spec: \<^verbatim>\<open>Results()\<close> (Results.h is not among the sources) is a
  fresh result: no iteration, no reason assigned, goodness 0.
\<close>

definition Results_init :: "'pose mrpt \<Rightarrow> 'pose Results" where
  "Results_init ext =
     \<lparr>nIterations = 0, terminationReason = Undefined, goodness = 0,
      optimal_tf = CPose3D_default ext, optimal_scale = 1.0\<rparr>"

text \<open>The loop that counts the points of the layers listed in the weights.\<close>

fun count_points ::
  "(string \<times> real) list \<Rightarrow> (string \<times> layer) list \<Rightarrow> (string \<times> layer) list \<Rightarrow> nat \<times> nat \<Rightarrow>
   error + (nat \<times> nat)" where
  "count_points weights layers2 [] acc = Inr acc"
| "count_points weights layers2 ((name, m1) # rest) (pointcount1, pointcount2) =
     (if map_of weights name = None then count_points weights layers2 rest (pointcount1, pointcount2)
      else
        (case m1 of
           None \<Rightarrow> Inl NullPointer
         | Some pts1 \<Rightarrow>
            (case map_of layers2 name of
               None \<Rightarrow> Inl OutOfRange
             | Some None \<Rightarrow> Inl NullPointer
             | Some (Some pts2) \<Rightarrow>
                 count_points weights layers2 rest
                   (pointcount1 + length pts1, pointcount2 + length pts2))))"

text \<open>\<^verbatim>\<open>.norm()\<close> of a block of the logarithm: the Euclidean norm.\<close>

definition vec_norm :: "real list \<Rightarrow> real" where
  "vec_norm v = sqrt (\<Sum>x\<leftarrow>v. x\<^sup>2)"

text \<open>
  The type of the virtual \<^verbatim>\<open>impl_ICP_iteration(state, p, out)\<close>: it may change the
  state and the result it is handed, or throw.
\<close>

type_synonym ('pose, 'w) impl_ICP_iteration =
  "'pose ICP_State \<Rightarrow> 'w Parameters \<Rightarrow> 'pose ICP_iteration_result \<Rightarrow>
   error + ('pose ICP_State \<times> 'pose ICP_iteration_result)"

text \<open>
  The main loop, from the test of \<^verbatim>\<open>result.nIterations < p.maxIterations\<close> on;
  \<open>prev\<close> is \<^verbatim>\<open>prev_solution\<close>. A \<^verbatim>\<open>break\<close> returns the state and the result as
  they are; so does the exit through the loop condition.
\<close>

function align_loop ::
  "'pose mrpt \<Rightarrow> ('pose, 'w) impl_ICP_iteration \<Rightarrow> 'w Parameters \<Rightarrow>
   'pose ICP_State \<Rightarrow> 'pose \<Rightarrow> 'pose Results \<Rightarrow> error + ('pose ICP_State \<times> 'pose Results)" where
  "align_loop ext impl p state prev result =
     (if nIterations result < maxIterations p then
        (case impl state p (ICP_iteration_result_init ext) of
           Inl e \<Rightarrow> Inl e
         | Inr (state1, iter_result) \<Rightarrow>
             if \<not> success iter_result then
               Inr (state1, result\<lparr>terminationReason := NoPairings, goodness := 0\<rparr>)
             else
               let state2 = state1\<lparr>current_solution := new_solution iter_result\<rparr>;
                   deltaSol = pose_minus ext (current_solution state2) prev;
                   dSol = SE3_log ext deltaSol;
                   delta_xyz = vec_norm (take 3 dSol);
                   delta_rot = vec_norm (take 3 (drop 3 dSol))
               in if \<bar>delta_xyz\<bar> < minAbsStep_trans p \<and> \<bar>delta_rot\<bar> < minAbsStep_rot p
                  then Inr (state2, result\<lparr>terminationReason := Stalled\<rparr>)
                  else align_loop ext impl p state2 (current_solution state2)
                         (result\<lparr>nIterations := nIterations result + 1\<rparr>))
      else Inr (state, result))"
  by pat_completeness auto
termination
  by (relation "measure (\<lambda>(ext, impl, p, state, prev, result). maxIterations p - nIterations result)")
    auto

declare align_loop.simps [simp del]

text \<open>What follows the loop.\<close>

definition align_finish ::
  "'pose ICP_State \<Rightarrow> 'w Parameters \<Rightarrow> 'pose Results \<Rightarrow> error + 'pose Results" where
  "align_finish state p result =
     (let result1 = (if nIterations result \<ge> maxIterations p
                     then result\<lparr>terminationReason := MaxIterations\<rparr> else result)
      in if layerOfLargestPc state \<noteq> [] then
           (case mres state (layerOfLargestPc state) of
              None \<Rightarrow> Inl OutOfRange
            | Some r \<Rightarrow>
                Inr (result1\<lparr>goodness := correspondencesRatio r,
                            optimal_tf := current_solution state,
                            optimal_scale := current_scale state\<rparr>))
         else Inr (result1\<lparr>optimal_tf := current_solution state,
                          optimal_scale := current_scale state\<rparr>))"

text \<open>What precedes the loop: the assertions, the state and the matching parameters.\<close>

definition align_prepare ::
  "'pose mrpt \<Rightarrow> pointcloud_t \<Rightarrow> pointcloud_t \<Rightarrow> 'pose \<Rightarrow> 'w Parameters \<Rightarrow> error + 'pose ICP_State" where
  "align_prepare ext pcs1 pcs2 init_guess_m2_wrt_m1 p =
     (if length (point_layers pcs1) \<noteq> length (point_layers pcs2) then Inl AssertionFailed
      else if \<not> (point_layers pcs1 \<noteq> [] \<or> (planes pcs1 \<noteq> [] \<and> planes pcs2 \<noteq> []))
      then Inl AssertionFailed
      else
        (case count_points (weight_pt2pt_layers p) (point_layers pcs2) (point_layers pcs1) (0, 0) of
           Inl e \<Rightarrow> Inl e
         | Inr (pointcount1, pointcount2) \<Rightarrow>
             if \<not> (pointcount1 > 0 \<or> planes pcs1 \<noteq> []) then Inl AssertionFailed
             else if \<not> (pointcount2 > 0 \<or> planes pcs2 \<noteq> []) then Inl AssertionFailed
             else
               prepareMatchingParams ext
                 ((ICP_State_init ext pcs1 pcs2)\<lparr>current_solution := init_guess_m2_wrt_m1\<rparr>) p))"

definition align ::
  "'pose mrpt \<Rightarrow> ('pose, 'w) impl_ICP_iteration \<Rightarrow> pointcloud_t \<Rightarrow> pointcloud_t \<Rightarrow> 'pose \<Rightarrow>
   'w Parameters \<Rightarrow> error + 'pose Results" where
  "align ext impl pcs1 pcs2 init_guess_m2_wrt_m1 p =
     (case align_prepare ext pcs1 pcs2 init_guess_m2_wrt_m1 p of
        Inl e \<Rightarrow> Inl e
      | Inr state \<Rightarrow>
         (case align_loop ext impl p state init_guess_m2_wrt_m1
                 ((Results_init ext)\<lparr>nIterations := 0\<rparr>) of
            Inl e \<Rightarrow> Inl e
          | Inr (state1, result) \<Rightarrow> align_finish state1 p result))"

section \<open>ICP_Horn_MultiCloud::impl_ICP_iteration\<close>

text \<open>
  \<^verbatim>\<open>ICP_Base::runMatchers\<close> (it takes the state by reference) and
  \<^verbatim>\<open>optimal_tf_horn\<close> are not among the sources: they are parameters.
\<close>

definition ICP_Horn_MultiCloud_impl_ICP_iteration ::
  "('pose ICP_State \<Rightarrow> error + ('pose ICP_State \<times> Pairings)) \<Rightarrow>
   (Pairings \<Rightarrow> 'w \<Rightarrow> error + 'pose) \<Rightarrow> ('pose, 'w) impl_ICP_iteration" where
  "ICP_Horn_MultiCloud_impl_ICP_iteration runMatchers optimal_tf_horn s p out =
     (if length (point_layers (pc1 s)) \<noteq> length (point_layers (pc2 s)) then Inl AssertionFailed
      else if point_layers (pc1 s) = [] then Inl AssertionFailed
      else if \<not> (length (point_layers (pc1 s)) \<ge> 1) then Inl AssertionFailed
      else
        (case runMatchers s of
           Inl e \<Rightarrow> Inl e
         | Inr (s0, prs) \<Rightarrow>
             let s1 = s0\<lparr>currentPairings := prs\<rparr>;
                 pairings = currentPairings s1
             in if Pairings_empty pairings \<or> length (paired_points pairings) < 3
                then Inr (s1, out\<lparr>success := False\<rparr>)
                else
                  (case optimal_tf_horn pairings (pairingsWeightParameters p) of
                     Inl e \<Rightarrow> Inl e
                   | Inr optimal_pose \<Rightarrow>
                       Inr (s1, out\<lparr>success := True, new_solution := optimal_pose\<rparr>))))"

section \<open>Matcher_Points_Base::match\<close>

text \<open>
  \<^verbatim>\<open>nAfter - nBefore\<close> on \<^verbatim>\<open>size_t\<close>: the difference modulo \<open>2 ^ 64\<close>.
\<close>

definition size_t_minus :: "nat \<Rightarrow> nat \<Rightarrow> nat" where
  "size_t_minus a b = (if b \<le> a then a - b else 2 ^ 64 + a - b)"

text \<open>
  The virtual \<^verbatim>\<open>implMatchOneLayer(glLayer, lcLayer, localPose, out)\<close> updates
  \<open>out\<close> or throws. The body of the loop over \<^verbatim>\<open>pcGlobal.point_layers\<close>, for the
  layer \<open>(name, glLayer)\<close>:
\<close>

type_synonym 'pose implMatchOneLayer =
  "point list \<Rightarrow> point list \<Rightarrow> 'pose \<Rightarrow> Pairings \<Rightarrow> error + Pairings"

definition match_layer ::
  "(string \<times> real) list \<Rightarrow> 'pose implMatchOneLayer \<Rightarrow> pointcloud_t \<Rightarrow> 'pose \<Rightarrow>
   string \<times> layer \<Rightarrow> Pairings \<Rightarrow> error + Pairings" where
  "match_layer weight_layers implMatchOneLayer pcLocal localPose glLayerKV out =
     (case glLayerKV of (name, glLayer) \<Rightarrow>
        if weight_layers \<noteq> [] \<and> map_of weight_layers name = None then Inr out
        else
          (case map_of (point_layers pcLocal) name of
             None \<Rightarrow> Inr out
           | Some lcLayer \<Rightarrow>
              (case glLayer of
                 None \<Rightarrow> Inl AssertionFailed
               | Some gl \<Rightarrow>
                  (case lcLayer of
                     None \<Rightarrow> Inl AssertionFailed
                   | Some lc \<Rightarrow>
                       let nBefore = length (paired_points out)
                       in case implMatchOneLayer gl lc localPose out of
                            Inl e \<Rightarrow> Inl e
                          | Inr out1 \<Rightarrow>
                              let nAfter = length (paired_points out1)
                              in if weight_layers \<noteq> [] \<and> nAfter \<noteq> nBefore then
                                   (case map_of weight_layers name of
                                      None \<Rightarrow> Inl OutOfRange
                                    | Some w \<Rightarrow>
                                        Inr (out1\<lparr>point_weights := point_weights out1 @
                                               [(size_t_minus nAfter nBefore, w)]\<rparr>))
                                 else Inr out1))))"

fun match_loop ::
  "(string \<times> real) list \<Rightarrow> 'pose implMatchOneLayer \<Rightarrow> pointcloud_t \<Rightarrow> 'pose \<Rightarrow>
   (string \<times> layer) list \<Rightarrow> Pairings \<Rightarrow> error + Pairings" where
  "match_loop weight_layers implMatchOneLayer pcLocal localPose [] out = Inr out"
| "match_loop weight_layers implMatchOneLayer pcLocal localPose (glLayerKV # rest) out =
     (case match_layer weight_layers implMatchOneLayer pcLocal localPose glLayerKV out of
        Inl e \<Rightarrow> Inl e
      | Inr out1 \<Rightarrow> match_loop weight_layers implMatchOneLayer pcLocal localPose rest out1)"

definition match_points ::
  "(string \<times> real) list \<Rightarrow> 'pose implMatchOneLayer \<Rightarrow> pointcloud_t \<Rightarrow> pointcloud_t \<Rightarrow> 'pose \<Rightarrow>
   error + Pairings" where
  "match_points weight_layers implMatchOneLayer pcGlobal pcLocal localPose =
     match_loop weight_layers implMatchOneLayer pcLocal localPose (point_layers pcGlobal)
       Pairings_init"

section \<open>Predicates of the specification\<close>

text \<open>
  The convergence test in the words of the specification: the Euclidean norms of the
  translation block and of the rotation block of the logarithm of the incremental pose
  (the previous pose's inverse composed with the candidate) are both strictly below the
  configured minimum steps.
\<close>

definition pose_step_below :: "'pose mrpt \<Rightarrow> 'w Parameters \<Rightarrow> 'pose \<Rightarrow> 'pose \<Rightarrow> bool" where
  "pose_step_below ext p prev candidate \<longleftrightarrow>
     (let dSol = SE3_log ext (pose_minus ext candidate prev)
      in vec_norm (take 3 dSol) < minAbsStep_trans p
         \<and> vec_norm (take 3 (drop 3 dSol)) < minAbsStep_rot p)"

text \<open>
  An implementation of the per-iteration hook that leaves \<^verbatim>\<open>state.current_scale\<close>
  as it finds it (the hook receives the state by non-const reference).
\<close>

definition impl_keeps_scale :: "('pose, 'w) impl_ICP_iteration \<Rightarrow> bool" where
  "impl_keeps_scale impl \<longleftrightarrow>
     (\<forall>s q out s' out'. impl s q out = Inr (s', out') \<longrightarrow> current_scale s' = current_scale s)"

text \<open>The matching parameters that the specification gives the plane-centroid layer.\<close>

definition plane_centroid_params :: "'w Parameters \<Rightarrow> TMatchingParams \<Rightarrow> bool" where
  "plane_centroid_params p mp \<longleftrightarrow>
     maxDistForCorrespondence mp = thresholdDist p + 2
     \<and> maxAngularDistForCorrespondence mp = 0
     \<and> onlyKeepTheClosest mp
     \<and> decimation_other_map_points mp = 1"

text \<open>
  A per-layer search that only appends point-point pairings to the pairings it is handed.
\<close>

definition impl_appends :: "'pose implMatchOneLayer \<Rightarrow> bool" where
  "impl_appends implMatchOneLayer \<longleftrightarrow>
     (\<forall>gl lc pose out out'. implMatchOneLayer gl lc pose out = Inr out' \<longrightarrow>
        (\<exists>new. out' = out\<lparr>paired_points := paired_points out @ new\<rparr>))"

text \<open>
  The layers of the global cloud that are matched: listed in the weights when there are
  weights, and present in the local cloud. The weight records that a sequence of layers
  with their new pairings produces: one (count, weight) record for each layer with at
  least one new pairing, in order, when there are weights; none otherwise.
\<close>

definition layer_is_matched :: "(string \<times> real) list \<Rightarrow> pointcloud_t \<Rightarrow> string \<Rightarrow> bool" where
  "layer_is_matched weight_layers pcLocal name \<longleftrightarrow>
     (weight_layers = [] \<or> map_of weight_layers name \<noteq> None)
     \<and> map_of (point_layers pcLocal) name \<noteq> None"

definition weight_records ::
  "(string \<times> real) list \<Rightarrow> (string \<times> (nat \<times> nat) list) list \<Rightarrow> (nat \<times> real) list" where
  "weight_records weight_layers chunks =
     (if weight_layers = [] then []
      else map (\<lambda>(name, new). (length new, the (map_of weight_layers name)))
             (filter (\<lambda>(name, new). new \<noteq> []) chunks))"

text \<open>
  What the per-layer search adds when it is run on a layer with the pairings \<open>out\<close>
  found so far: the point pairings that stand behind those of \<open>out\<close> in its answer.
\<close>

definition added_by ::
  "'pose implMatchOneLayer \<Rightarrow> point list \<Rightarrow> point list \<Rightarrow> 'pose \<Rightarrow> Pairings \<Rightarrow> (nat \<times> nat) list" where
  "added_by implMatchOneLayer gl lc pose out =
     (case implMatchOneLayer gl lc pose out of
        Inl e \<Rightarrow> []
      | Inr out1 \<Rightarrow> drop (length (paired_points out)) (paired_points out1))"

text \<open>
  The contribution of each matched layer, in the order of the layers of the global cloud:
  the name of the layer with the pairings that the per-layer search adds for it, the
  search being run with the pairings and the weight records that the earlier layers
  have left.
\<close>

fun layer_contributions ::
  "(string \<times> real) list \<Rightarrow> 'pose implMatchOneLayer \<Rightarrow> pointcloud_t \<Rightarrow> 'pose \<Rightarrow>
   (string \<times> layer) list \<Rightarrow> Pairings \<Rightarrow> (string \<times> (nat \<times> nat) list) list" where
  "layer_contributions weight_layers implMatchOneLayer pcLocal pose [] out = []"
| "layer_contributions weight_layers implMatchOneLayer pcLocal pose ((name, glLayer) # rest) out =
     (if layer_is_matched weight_layers pcLocal name then
        (case glLayer of
           None \<Rightarrow> []
         | Some gl \<Rightarrow>
            (case map_of (point_layers pcLocal) name of
               Some (Some lc) \<Rightarrow>
                 (let new = added_by implMatchOneLayer gl lc pose out
                  in (name, new) #
                     layer_contributions weight_layers implMatchOneLayer pcLocal pose rest
                       (out\<lparr>paired_points := paired_points out @ new,
                            point_weights := point_weights out @
                              weight_records weight_layers [(name, new)]\<rparr>))
             | _ \<Rightarrow> []))
      else layer_contributions weight_layers implMatchOneLayer pcLocal pose rest out)"

section \<open>Example inputs\<close>

text \<open>A one-dimensional stand-in for the externals, used to run the code on examples:
  a pose is a shift along x, the shuffle reverses for an odd seed and keeps the order
  for an even one.\<close>

definition shift_ext :: "real mrpt" where
  "shift_ext =
     \<lparr>PT_LAYER_PLANE_CENTROIDS = ''plane_centroids'',
      TMatchingParams_default =
        \<lparr>maxDistForCorrespondence = 0, maxAngularDistForCorrespondence = 0,
         onlyKeepTheClosest = False, onlyUniqueRobust = False,
         decimation_other_map_points = 1, offset_other_map_points = 0\<rparr>,
      CPose3D_default = 0,
      pose_minus = (\<lambda>a b. a - b),
      SE3_log = (\<lambda>d. [d, 0, 0, 0, 0, 0]),
      composePoint = (\<lambda>t (x, y, z). (x + t, y, z)),
      std_shuffle = (\<lambda>s xs. if odd (unat s) then rev xs else xs),
      fMax = 1000\<rparr>"

definition three_points :: "point list" where
  "three_points = [(0, 0, 0), (1, 0, 0), (0, 1, 0)]"

text \<open>Clouds with one layer \<open>raw\<close> of two and of three points, and no planes.\<close>

definition raw2 :: pointcloud_t where
  "raw2 = \<lparr>point_layers = [(''raw'', Some [(0, 0, 0), (1, 0, 0)])], planes = []\<rparr>"

definition raw3 :: pointcloud_t where
  "raw3 = \<lparr>point_layers = [(''raw'', Some three_points)], planes = []\<rparr>"

definition raw_params :: "unit Parameters" where
  "raw_params =
     \<lparr>maxIterations = 3, thresholdDist = 1, thresholdAng = 0, maxPairsPerLayer = 2,
      minAbsStep_trans = 1 / 2, minAbsStep_rot = 1 / 2,
      weight_pt2pt_layers = [(''raw'', 1)], pairingsWeightParameters = ()\<rparr>"

definition loose_params :: "unit Parameters" where
  "loose_params = raw_params\<lparr>minAbsStep_trans := 2, minAbsStep_rot := 2\<rparr>"

text \<open>
  A matcher for layer \<open>raw\<close> that pairs point \<open>i\<close> with point \<open>i\<close>, as two equal
  clouds give, and records that every point found a pairing; a solver that always
  answers the pose 0.
\<close>

definition pair_all_matcher :: "real ICP_State \<Rightarrow> error + (real ICP_State \<times> Pairings)" where
  "pair_all_matcher s =
     (case map_of (point_layers (pc1 s)) ''raw'' of
        Some (Some pts) \<Rightarrow>
          Inr (s\<lparr>mres := (mres s)(''raw'' \<mapsto> \<lparr>correspondencesRatio = 1, sumSqrDist = 0\<rparr>)\<rparr>,
               Pairings_init\<lparr>paired_points := map (\<lambda>i. (i, i)) [0..<length pts]\<rparr>)
      | _ \<Rightarrow> Inl OutOfRange)"

definition still_solver :: "Pairings \<Rightarrow> unit \<Rightarrow> error + real" where
  "still_solver prs w = Inr 0"

text \<open>
  An iteration hook that always succeeds, moves the pose by 1 and proposes the scale 2.
\<close>

definition drift_impl :: "(real, unit) impl_ICP_iteration" where
  "drift_impl s p out =
     Inr (s\<lparr>mres := (mres s)(''raw'' \<mapsto> \<lparr>correspondencesRatio = 1, sumSqrDist = 0\<rparr>)\<rparr>,
          out\<lparr>success := True, new_solution := current_solution s + 1, new_scale := 2\<rparr>)"

text \<open>
  An iteration hook that writes the scale 2 into the state it is handed, and answers the
  current pose.
\<close>

definition rescaling_impl :: "(real, unit) impl_ICP_iteration" where
  "rescaling_impl s p out =
     Inr (s\<lparr>current_scale := 2,
            mres := (mres s)(''raw'' \<mapsto> \<lparr>correspondencesRatio = 1, sumSqrDist = 0\<rparr>)\<rparr>,
          out\<lparr>success := True, new_solution := current_solution s, new_scale := 2\<rparr>)"

definition drift_state0 :: "real ICP_State" where
  "drift_state0 = ICP_State_init shift_ext raw3 raw3"

definition drift_state1 :: "real ICP_State" where
  "drift_state1 = drift_state0\<lparr>mres := (mres drift_state0)(''raw'' \<mapsto>
      \<lparr>correspondencesRatio = 1, sumSqrDist = 0\<rparr>)\<rparr>"

definition drift_result1 :: "real ICP_iteration_result" where
  "drift_result1 = \<lparr>success = True, new_solution = 1, new_scale = 2\<rparr>"




text \<open>
  Two clouds with one layer each, under different names, and a plane; a cloud with no
  layer; a cloud with the plane-centroid layer and a layer \<open>raw\<close>.
\<close>

definition some_plane :: plane_patch_t where
  "some_plane = \<lparr>centroid = (0, 0, 0), plane_coefs = (0, 0, 1, 0)\<rparr>"

definition cloud_a :: pointcloud_t where
  "cloud_a = \<lparr>point_layers = [(''a'', Some three_points)], planes = [some_plane]\<rparr>"

definition cloud_b :: pointcloud_t where
  "cloud_b = \<lparr>point_layers = [(''b'', Some three_points)], planes = [some_plane]\<rparr>"

definition empty_cloud :: pointcloud_t where
  "empty_cloud = \<lparr>point_layers = [], planes = []\<rparr>"

definition plane_cloud :: pointcloud_t where
  "plane_cloud =
     \<lparr>point_layers = [(''plane_centroids'', Some [(0, 0, 0)]), (''raw'', Some three_points)],
      planes = [some_plane]\<rparr>"

definition no_weight_params :: "unit Parameters" where
  "no_weight_params = raw_params\<lparr>weight_pt2pt_layers := []\<rparr>"

definition a_weight_params :: "unit Parameters" where
  "a_weight_params = raw_params\<lparr>weight_pt2pt_layers := [(''a'', 1)]\<rparr>"

text \<open>A per-layer search that pairs point \<open>i\<close> of the global layer with point \<open>i\<close> of
  the local one.\<close>

definition pair_by_index :: "real implMatchOneLayer" where
  "pair_by_index gl lc pose out =
     Inr (out\<lparr>paired_points := paired_points out @
            map (\<lambda>i. (i, i)) [0..<min (length gl) (length lc)]\<rparr>)"

section \<open>Properties of transform_local_to_global\<close>

lemma compose_loop_total:
  assumes "\<And>ri. ri \<in> set ris \<Longrightarrow> \<exists>i. sel ri = Inr i \<and> i < length pcLocal"
    and "\<And>ri. ri \<in> set ris \<Longrightarrow> ri < length (x_locals r) \<and> ri < length (y_locals r) \<and> ri < length (z_locals r)"
  shows "\<exists>r'. compose_loop cp pcLocal sel ris r = Inr r' \<and> idxs r' = idxs r
      \<and> length (x_locals r') = length (x_locals r)"
  using assms
proof (induction ris arbitrary: r)
  case Nil
  then show ?case by simp
next
  case (Cons ri ris)
  from Cons.prems(1) [of ri] obtain i where i: "sel ri = Inr i" "i < length pcLocal"
    by auto
  obtain gx gy gz where g: "cp (pcLocal ! i) = (gx, gy, gz)"
    by (cases "cp (pcLocal ! i)") auto
  define r1 where "r1 = lambdaKeepBBox
      (r\<lparr>x_locals := (x_locals r)[ri := gx], y_locals := (y_locals r)[ri := gy],
         z_locals := (z_locals r)[ri := gz]\<rparr>) (gx, gy, gz)"
  have r1: "idxs r1 = idxs r" "length (x_locals r1) = length (x_locals r)"
    "length (y_locals r1) = length (y_locals r)" "length (z_locals r1) = length (z_locals r)"
    by (simp_all add: r1_def lambdaKeepBBox_def split: prod.splits)
  have step: "compose_loop cp pcLocal sel (ri # ris) r = compose_loop cp pcLocal sel ris r1"
    using i g Cons.prems(2) [of ri] by (simp add: at_index_def r1_def)
  have "\<exists>r'. compose_loop cp pcLocal sel ris r1 = Inr r' \<and> idxs r' = idxs r1
      \<and> length (x_locals r') = length (x_locals r1)"
  proof (rule Cons.IH)
    fix rj assume "rj \<in> set ris"
    then show "\<exists>i. sel rj = Inr i \<and> i < length pcLocal"
      using Cons.prems(1) [of rj] by simp
  next
    fix rj assume "rj \<in> set ris"
    then show "rj < length (x_locals r1) \<and> rj < length (y_locals r1) \<and> rj < length (z_locals r1)"
      using Cons.prems(2) [of rj] r1 by simp
  qed
  with step r1 show ?case by simp
qed

text \<open>
  C9. Two runs of \<^verbatim>\<open>transform_local_to_global\<close> on the same cloud, pose and
  \<^verbatim>\<open>maxLocalPoints\<close> with the same non-zero seed return the same value (selected
  indices, transformed coordinates, bounding box, or the same failure), whatever the
  clock reads in either run. Nothing is stated for seed 0.
\<close>

theorem transform_local_to_global_seed_deterministic:
  assumes "localPointsSampleSeed \<noteq> 0"
  shows "transform_local_to_global ext pcLocal localPose maxLocalPoints localPointsSampleSeed now1
       = transform_local_to_global ext pcLocal localPose maxLocalPoints localPointsSampleSeed now2"
  using assms by (simp add: transform_local_to_global_def)

lemma transform_local_to_global_example:
  "transform_local_to_global shift_ext three_points 1 2 5 100 =
     Inr \<lparr>localMin = (1, 0, 0), localMax = (2, 0, 0), idxs = Some [1, 0],
          x_locals = [2, 1], y_locals = [0, 0], z_locals = [0, 0]\<rparr>"
  by code_simp

theorem transform_local_to_global_seed_deterministic_witness:
  "(5 :: 64 word) \<noteq> 0
   \<and> transform_local_to_global shift_ext three_points 1 2 5 100
     = transform_local_to_global shift_ext three_points 1 2 5 777
   \<and> transform_local_to_global shift_ext three_points 1 2 5 100
     = Inr \<lparr>localMin = (1, 0, 0), localMax = (2, 0, 0), idxs = Some [1, 0],
            x_locals = [2, 1], y_locals = [0, 0], z_locals = [0, 0]\<rparr>"
  using transform_local_to_global_seed_deterministic [of 5 shift_ext three_points 1 2 100 777]
    transform_local_to_global_example
  by simp

text \<open>
  C4. When the local cloud has more than \<^verbatim>\<open>maxLocalPoints\<close> points (and
  \<^verbatim>\<open>maxLocalPoints\<close> is not 0), the vector that is filled by \<^verbatim>\<open>std::iota\<close> and
  shuffled has \<^verbatim>\<open>maxLocalPoints\<close> entries, not \<^verbatim>\<open>nLocalPoints\<close>: for every
  shuffle that permutes its argument the call succeeds and the selected indices are
  exactly \<open>0, \<dots>, maxLocalPoints - 1\<close> in shuffled order. The points from index
  \<^verbatim>\<open>maxLocalPoints\<close> on exist but are never selected, whatever the seed: the
  permutation is not one of \<open>[0, localCount)\<close>.
\<close>

theorem transform_local_to_global_subset_is_prefix:
  assumes perm: "\<forall>s xs. mset (std_shuffle ext s xs) = mset xs"
    and "maxLocalPoints \<noteq> 0" and "maxLocalPoints < length pcLocal"
  shows "\<exists>r is. transform_local_to_global ext pcLocal localPose maxLocalPoints seed now = Inr r
      \<and> idxs r = Some is \<and> set is = {0..<maxLocalPoints} \<and> maxLocalPoints \<notin> set is
      \<and> length (x_locals r) = maxLocalPoints"
proof -
  define s32 where "s32 = (if seed \<noteq> 0 then (ucast seed :: 32 word) else ucast now)"
  define sh where "sh = std_shuffle ext s32 [0..<maxLocalPoints]"
  define r0 where "r0 = (TransformedLocalPointCloud_init ext)\<lparr>idxs := Some sh,
      x_locals := replicate maxLocalPoints 0, y_locals := replicate maxLocalPoints 0,
      z_locals := replicate maxLocalPoints 0\<rparr>"
  have m: "mset sh = mset [0..<maxLocalPoints]"
    using perm by (simp add: sh_def)
  have set_sh: "set sh = {0..<maxLocalPoints}"
    using mset_eq_setD [OF m] by simp
  have len_sh: "length sh = maxLocalPoints"
    using mset_eq_length [OF m] by simp
  have run: "transform_local_to_global ext pcLocal localPose maxLocalPoints seed now
      = compose_loop (composePoint ext localPose) pcLocal (at_index sh) [0..<maxLocalPoints] r0"
    using assms(2,3) by (simp add: transform_local_to_global_def Let_def sh_def s32_def r0_def)
  have "\<exists>r'. compose_loop (composePoint ext localPose) pcLocal (at_index sh)
          [0..<maxLocalPoints] r0 = Inr r'
      \<and> idxs r' = idxs r0 \<and> length (x_locals r') = length (x_locals r0)"
  proof (rule compose_loop_total)
    fix ri assume "ri \<in> set [0..<maxLocalPoints]"
    then have ri: "ri < length sh" using len_sh by simp
    then have "sh ! ri \<in> set sh" by simp
    then have "sh ! ri < length pcLocal" using set_sh assms(3) by auto
    with ri show "\<exists>i. at_index sh ri = Inr i \<and> i < length pcLocal"
      by (simp add: at_index_def)
  next
    fix ri assume "ri \<in> set [0..<maxLocalPoints]"
    then show "ri < length (x_locals r0) \<and> ri < length (y_locals r0) \<and> ri < length (z_locals r0)"
      by (simp add: r0_def)
  qed
  then obtain r' where r':
    "compose_loop (composePoint ext localPose) pcLocal (at_index sh) [0..<maxLocalPoints] r0 = Inr r'"
    "idxs r' = idxs r0" "length (x_locals r') = length (x_locals r0)"
    by blast
  have "idxs r' = Some sh" "length (x_locals r') = maxLocalPoints"
    using r' by (simp_all add: r0_def)
  with run r'(1) set_sh show ?thesis by auto
qed

lemma shift_ext_shuffle_permutes: "\<forall>s xs. mset (std_shuffle shift_ext s xs) = mset xs"
  by (simp add: shift_ext_def)

theorem transform_local_to_global_subset_is_prefix_witness:
  "(2 :: nat) \<noteq> 0 \<and> 2 < length three_points
   \<and> (\<exists>r is. transform_local_to_global shift_ext three_points 1 2 5 100 = Inr r
        \<and> idxs r = Some is \<and> set is = {0..<2} \<and> 2 \<notin> set is \<and> length (x_locals r) = 2)"
  using transform_local_to_global_subset_is_prefix
    [OF shift_ext_shuffle_permutes, of 2 three_points 1 5 100]
  by (simp add: three_points_def)

section \<open>Properties of the main loop of align\<close>

lemma vec_norm_nonneg: "0 \<le> vec_norm v"
  by (auto simp: vec_norm_def intro!: sum_list_nonneg)

lemma vec_norm_examples: "vec_norm [1, 0, 0] = 1" "vec_norm [0, 0, 0] = 0"
  by (simp_all add: vec_norm_def)

text \<open>The five ways through one round of the loop.\<close>

lemma align_loop_done:
  "\<not> nIterations result < maxIterations p \<Longrightarrow>
   align_loop ext impl p state prev result = Inr (state, result)"
  by (simp add: align_loop.simps [of ext impl p state prev result])

lemma align_loop_throw:
  "nIterations result < maxIterations p \<Longrightarrow>
   impl state p (ICP_iteration_result_init ext) = Inl e \<Longrightarrow>
   align_loop ext impl p state prev result = Inl e"
  by (simp add: align_loop.simps [of ext impl p state prev result])

lemma align_loop_no_pairings:
  "nIterations result < maxIterations p \<Longrightarrow>
   impl state p (ICP_iteration_result_init ext) = Inr (state1, iter_result) \<Longrightarrow>
   \<not> success iter_result \<Longrightarrow>
   align_loop ext impl p state prev result =
     Inr (state1, result\<lparr>terminationReason := NoPairings, goodness := 0\<rparr>)"
  by (simp add: align_loop.simps [of ext impl p state prev result])

lemma align_loop_stalled:
  "nIterations result < maxIterations p \<Longrightarrow>
   impl state p (ICP_iteration_result_init ext) = Inr (state1, iter_result) \<Longrightarrow>
   success iter_result \<Longrightarrow>
   pose_step_below ext p prev (new_solution iter_result) \<Longrightarrow>
   align_loop ext impl p state prev result =
     Inr (state1\<lparr>current_solution := new_solution iter_result\<rparr>,
          result\<lparr>terminationReason := Stalled\<rparr>)"
  by (auto simp: align_loop.simps [of ext impl p state prev result] pose_step_below_def Let_def
      vec_norm_nonneg)

lemma align_loop_continue:
  "nIterations result < maxIterations p \<Longrightarrow>
   impl state p (ICP_iteration_result_init ext) = Inr (state1, iter_result) \<Longrightarrow>
   success iter_result \<Longrightarrow>
   \<not> pose_step_below ext p prev (new_solution iter_result) \<Longrightarrow>
   align_loop ext impl p state prev result =
     align_loop ext impl p (state1\<lparr>current_solution := new_solution iter_result\<rparr>)
       (new_solution iter_result) (result\<lparr>nIterations := nIterations result + 1\<rparr>)"
  by (auto simp: align_loop.simps [of ext impl p state prev result] pose_step_below_def Let_def
      vec_norm_nonneg)

text \<open>
  How the loop is left: through a \<^verbatim>\<open>break\<close>, with the reason set and the counter
  below the maximum, or through its condition, with the counter at the maximum and the
  reason untouched.
\<close>

lemma align_loop_exit:
  assumes "align_loop ext impl p state prev result = Inr (state', result')"
    and "nIterations result \<le> maxIterations p"
  shows "(terminationReason result' = NoPairings \<or> terminationReason result' = Stalled)
           \<and> nIterations result' < maxIterations p
         \<or> nIterations result' = maxIterations p
           \<and> terminationReason result' = terminationReason result"
  using assms
proof (induction "maxIterations p - nIterations result" arbitrary: state prev result)
  case 0
  then show ?case by (simp add: align_loop_done)
next
  case (Suc n)
  then have running: "nIterations result < maxIterations p" by simp
  show ?case
  proof (cases "impl state p (ICP_iteration_result_init ext)")
    case (Inl e)
    with running Suc.prems show ?thesis by (simp add: align_loop_throw)
  next
    case (Inr pr)
    obtain state1 iter_result where pr: "pr = (state1, iter_result)" by (cases pr)
    note call = Inr [unfolded pr]
    show ?thesis
    proof (cases "success iter_result")
      case False
      with running call Suc.prems show ?thesis by (auto simp: align_loop_no_pairings)
    next
      case True
      show ?thesis
      proof (cases "pose_step_below ext p prev (new_solution iter_result)")
        case True
        with running call \<open>success iter_result\<close> Suc.prems show ?thesis
          by (auto simp: align_loop_stalled)
      next
        case False
        let ?result1 = "result\<lparr>nIterations := nIterations result + 1\<rparr>"
        have "(terminationReason result' = NoPairings \<or> terminationReason result' = Stalled)
                \<and> nIterations result' < maxIterations p
              \<or> nIterations result' = maxIterations p
                \<and> terminationReason result' = terminationReason ?result1"
        proof (rule Suc.hyps(1))
          show "n = maxIterations p - nIterations ?result1" using Suc.hyps(2) by simp
          show "align_loop ext impl p (state1\<lparr>current_solution := new_solution iter_result\<rparr>)
              (new_solution iter_result) ?result1 = Inr (state', result')"
            using align_loop_continue [where impl = impl and state = state and ext = ext,
                OF running call True False] Suc.prems(1)
            by simp
          show "nIterations ?result1 \<le> maxIterations p" using running by simp
        qed
        then show ?thesis by simp
      qed
    qed
  qed
qed

lemma align_loop_scale:
  assumes frame: "\<And>s q out s' out'. impl s q out = Inr (s', out') \<Longrightarrow> current_scale s' = current_scale s"
    and "align_loop ext impl p state prev result = Inr (state', result')"
  shows "current_scale state' = current_scale state"
  using assms(2)
proof (induction "maxIterations p - nIterations result" arbitrary: state prev result)
  case 0
  then show ?case by (simp add: align_loop_done)
next
  case (Suc n)
  then have running: "nIterations result < maxIterations p" by simp
  show ?case
  proof (cases "impl state p (ICP_iteration_result_init ext)")
    case (Inl e)
    with running Suc.prems show ?thesis by (simp add: align_loop_throw)
  next
    case (Inr pr)
    obtain state1 iter_result where pr: "pr = (state1, iter_result)" by (cases pr)
    note call = Inr [unfolded pr]
    have s1: "current_scale state1 = current_scale state"
      using frame [of state p _ state1 iter_result] call by simp
    show ?thesis
    proof (cases "success iter_result")
      case False
      with running call Suc.prems s1 show ?thesis by (auto simp: align_loop_no_pairings)
    next
      case True
      show ?thesis
      proof (cases "pose_step_below ext p prev (new_solution iter_result)")
        case True
        with running call \<open>success iter_result\<close> Suc.prems s1 show ?thesis
          by (auto simp: align_loop_stalled)
      next
        case False
        let ?result1 = "result\<lparr>nIterations := nIterations result + 1\<rparr>"
        have "current_scale state'
            = current_scale (state1\<lparr>current_solution := new_solution iter_result\<rparr>)"
        proof (rule Suc.hyps(1))
          show "n = maxIterations p - nIterations ?result1" using Suc.hyps(2) by simp
          show "align_loop ext impl p (state1\<lparr>current_solution := new_solution iter_result\<rparr>)
              (new_solution iter_result) ?result1 = Inr (state', result')"
            using align_loop_continue [where impl = impl and state = state and ext = ext,
                OF running call True False] Suc.prems(1)
            by simp
        qed
        with s1 show ?thesis by simp
      qed
    qed
  qed
qed

text \<open>What the preparation leaves untouched.\<close>

lemma prepare_layer_frame:
  assumes "prepare_layer ext p kv1 (largest, state) = Inr (largest', state')"
  shows "current_scale state' = current_scale state"
    and "current_solution state' = current_solution state"
  using assms
  by (auto simp: prepare_layer_def Let_def split: prod.splits if_splits option.splits sum.splits)

lemma prepare_loop_frame:
  assumes "prepare_loop ext p layers (largest, state) = Inr (largest', state')"
  shows "current_scale state' = current_scale state
      \<and> current_solution state' = current_solution state"
  using assms
proof (induction layers arbitrary: largest state)
  case Nil
  then show ?case by simp
next
  case (Cons kv1 rest)
  from Cons.prems obtain l1 s1 where
    one: "prepare_layer ext p kv1 (largest, state) = Inr (l1, s1)"
    and more: "prepare_loop ext p rest (l1, s1) = Inr (largest', state')"
    by (auto split: sum.splits)
  from Cons.IH [OF more] prepare_layer_frame [OF one] show ?case by simp
qed

lemma align_prepare_frame:
  assumes "align_prepare ext pcs1 pcs2 g p = Inr state"
  shows "current_scale state = 1" and "current_solution state = g"
  using assms prepare_loop_frame [of ext p "point_layers pcs1" 0
      "(ICP_State_init ext pcs1 pcs2)\<lparr>current_solution := g\<rparr>"]
  by (auto simp: align_prepare_def prepareMatchingParams_def ICP_State_init_def
      split: if_splits sum.splits prod.splits)

text \<open>Runs of the whole of \<^verbatim>\<open>align\<close> on the examples.\<close>

lemmas align_unfold =
  align_def align_prepare_def prepareMatchingParams_def prepare_layer_def
  decimation_stride_def static_cast_unsigned_def mps_subscript_def ICP_State_init_def
  Results_init_def ICP_iteration_result_init_def align_finish_def align_loop.simps
  ICP_Horn_MultiCloud_impl_ICP_iteration_def Pairings_init_def Pairings_empty_def
  shift_ext_def three_points_def vec_norm_examples

lemma align_drift_run:
  "align shift_ext drift_impl raw3 raw3 0 raw_params
     = Inr \<lparr>nIterations = 3, terminationReason = MaxIterations, goodness = 1, optimal_tf = 3,
            optimal_scale = 1\<rparr>"
  by (simp add: align_unfold drift_impl_def raw3_def raw_params_def)

lemma drift_call:
  "drift_impl drift_state0 q (ICP_iteration_result_init shift_ext) = Inr (drift_state1, drift_result1)"
  by (simp add: drift_impl_def drift_state0_def drift_state1_def drift_result1_def
      ICP_iteration_result_init_def ICP_State_init_def shift_ext_def)

lemma drift_step_norms:
  "pose_step_below shift_ext loose_params 0 1" "\<not> pose_step_below shift_ext raw_params 0 1"
  by (simp_all add: pose_step_below_def shift_ext_def loose_params_def raw_params_def
      vec_norm_examples)

lemma drift_impl_keeps_scale: "impl_keeps_scale drift_impl"
  by (auto simp: impl_keeps_scale_def drift_impl_def)

text \<open>
  C1. In an iteration of the loop of \<^verbatim>\<open>align\<close> in which the hook reports success
  with the candidate pose \<open>new_solution iter_result\<close>: if the norms of the translation
  block and of the rotation block of the logarithm of the incremental pose are both
  strictly below \<^verbatim>\<open>minAbsStep_trans\<close> and \<^verbatim>\<open>minAbsStep_rot\<close>, the loop ends there
  with reason \<open>Stalled\<close>, and what follows the loop returns that reason with the
  candidate as the pose; otherwise the loop goes on, the candidate being the current and
  the previous pose of the next round and the counter one higher. The
  \<^verbatim>\<open>std::abs\<close> around the norms changes nothing.
\<close>

theorem align_iteration_stalled_iff:
  assumes running: "nIterations result < maxIterations p"
    and call: "impl state p (ICP_iteration_result_init ext) = Inr (state1, iter_result)"
    and ok: "success iter_result"
  shows "(pose_step_below ext p prev (new_solution iter_result) \<longrightarrow>
            align_loop ext impl p state prev result
              = Inr (state1\<lparr>current_solution := new_solution iter_result\<rparr>,
                     result\<lparr>terminationReason := Stalled\<rparr>)
          \<and> (\<forall>r. align_finish (state1\<lparr>current_solution := new_solution iter_result\<rparr>) p
                     (result\<lparr>terminationReason := Stalled\<rparr>) = Inr r \<longrightarrow>
                 terminationReason r = Stalled \<and> nIterations r = nIterations result
                 \<and> optimal_tf r = new_solution iter_result))
     \<and> (\<not> pose_step_below ext p prev (new_solution iter_result) \<longrightarrow>
            align_loop ext impl p state prev result
              = align_loop ext impl p (state1\<lparr>current_solution := new_solution iter_result\<rparr>)
                  (new_solution iter_result) (result\<lparr>nIterations := nIterations result + 1\<rparr>))"
proof (intro conjI impI allI)
  assume "pose_step_below ext p prev (new_solution iter_result)"
  then show "align_loop ext impl p state prev result
      = Inr (state1\<lparr>current_solution := new_solution iter_result\<rparr>,
             result\<lparr>terminationReason := Stalled\<rparr>)"
    using running call ok by (rule align_loop_stalled [rotated 3])
next
  fix r
  assume "align_finish (state1\<lparr>current_solution := new_solution iter_result\<rparr>) p
      (result\<lparr>terminationReason := Stalled\<rparr>) = Inr r"
  then have "terminationReason r = Stalled \<and> nIterations r = nIterations result
      \<and> optimal_tf r = new_solution iter_result"
    using running by (auto simp: align_finish_def Let_def split: if_splits option.splits)
  then show "terminationReason r = Stalled" "nIterations r = nIterations result"
    "optimal_tf r = new_solution iter_result" by simp_all
next
  assume "\<not> pose_step_below ext p prev (new_solution iter_result)"
  then show "align_loop ext impl p state prev result
      = align_loop ext impl p (state1\<lparr>current_solution := new_solution iter_result\<rparr>)
          (new_solution iter_result) (result\<lparr>nIterations := nIterations result + 1\<rparr>)"
    using running call ok by (rule align_loop_continue [rotated 3])
qed

theorem align_iteration_stalled_iff_witness:
  "pose_step_below shift_ext loose_params 0 (new_solution drift_result1)
   \<and> align_loop shift_ext drift_impl loose_params drift_state0 0 (Results_init shift_ext)
       = Inr (drift_state1\<lparr>current_solution := 1\<rparr>,
              (Results_init shift_ext)\<lparr>terminationReason := Stalled\<rparr>)
   \<and> \<not> pose_step_below shift_ext raw_params 0 (new_solution drift_result1)
   \<and> align_loop shift_ext drift_impl raw_params drift_state0 0 (Results_init shift_ext)
       = align_loop shift_ext drift_impl raw_params (drift_state1\<lparr>current_solution := 1\<rparr>) 1
           ((Results_init shift_ext)\<lparr>nIterations := 1\<rparr>)"
  using align_iteration_stalled_iff [of "Results_init shift_ext" loose_params drift_impl
      drift_state0 shift_ext drift_state1 drift_result1 0]
    align_iteration_stalled_iff [of "Results_init shift_ext" raw_params drift_impl
      drift_state0 shift_ext drift_state1 drift_result1 0]
    drift_call drift_step_norms
  by (simp add: Results_init_def loose_params_def raw_params_def drift_result1_def)

text \<open>
  C2. When \<^verbatim>\<open>align\<close> returns, its termination reason is exactly one of
  \<open>MaxIterations\<close>, \<open>Stalled\<close>, \<open>NoPairings\<close> (never the unassigned value), and it is
  \<open>MaxIterations\<close> exactly when the iteration counter has reached
  \<^verbatim>\<open>maxIterations\<close>; with either other reason the counter is below it. This holds
  for \<^verbatim>\<open>maxIterations = 0\<close> as well.
\<close>

theorem align_termination_reason:
  assumes "align ext impl pcs1 pcs2 init_guess p = Inr r"
  shows "(\<exists>!t. (t = MaxIterations \<or> t = Stalled \<or> t = NoPairings) \<and> terminationReason r = t)
     \<and> (terminationReason r = MaxIterations \<longleftrightarrow> nIterations r = maxIterations p)
     \<and> (terminationReason r \<noteq> MaxIterations \<longleftrightarrow> nIterations r < maxIterations p)"
proof -
  from assms obtain state state1 result where
    loop: "align_loop ext impl p state init_guess ((Results_init ext)\<lparr>nIterations := 0\<rparr>)
        = Inr (state1, result)"
    and fin: "align_finish state1 p result = Inr r"
    by (auto simp: align_def split: sum.splits)
  have exit: "(terminationReason result = NoPairings \<or> terminationReason result = Stalled)
           \<and> nIterations result < maxIterations p
         \<or> nIterations result = maxIterations p"
    using align_loop_exit [OF loop] by auto
  have r: "nIterations r = nIterations result"
    "terminationReason r = (if nIterations result \<ge> maxIterations p then MaxIterations
       else terminationReason result)"
    using fin by (auto simp: align_finish_def Let_def split: if_splits option.splits)
  from exit r show ?thesis by auto
qed

theorem align_termination_reason_witness:
  "\<exists>r. align shift_ext drift_impl raw3 raw3 0 raw_params = Inr r
     \<and> (\<exists>!t. (t = MaxIterations \<or> t = Stalled \<or> t = NoPairings) \<and> terminationReason r = t)
     \<and> terminationReason r = MaxIterations \<and> nIterations r = 3 \<and> maxIterations raw_params = 3"
  using align_termination_reason [OF align_drift_run] align_drift_run
  by (simp add: raw_params_def)

text \<open>
  The hook of \<^verbatim>\<open>ICP_Horn_MultiCloud\<close> writes \<^verbatim>\<open>currentPairings\<close> only: it leaves
  the scale of the state alone whenever \<^verbatim>\<open>runMatchers\<close> does.
\<close>

lemma ICP_Horn_MultiCloud_keeps_scale:
  assumes "\<And>s s' prs. runMatchers s = Inr (s', prs) \<Longrightarrow> current_scale s' = current_scale s"
  shows "impl_keeps_scale (ICP_Horn_MultiCloud_impl_ICP_iteration runMatchers optimal_tf_horn)"
  unfolding impl_keeps_scale_def
proof (intro allI impI)
  fix s q out s' out'
  assume "ICP_Horn_MultiCloud_impl_ICP_iteration runMatchers optimal_tf_horn s q out
      = Inr (s', out')"
  then obtain s0 prs where "runMatchers s = Inr (s0, prs)"
    and "s' = s0\<lparr>currentPairings := prs\<rparr>"
    by (auto simp: ICP_Horn_MultiCloud_impl_ICP_iteration_def Let_def
        split: if_splits sum.splits)
  with assms [of s s0 prs] show "current_scale s' = current_scale s" by simp
qed

text \<open>
  C10, as the code has it. \<^verbatim>\<open>align\<close> itself never writes
  \<^verbatim>\<open>state.current_scale\<close>: when the per-iteration hook leaves it as it finds it, the
  \<^verbatim>\<open>optimal_scale\<close> that \<^verbatim>\<open>align\<close> returns is 1, the scale the state starts
  with; the loop takes the candidate pose of an iteration and never its
  \<^verbatim>\<open>new_scale\<close>, whatever that is.
\<close>

theorem align_optimal_scale_is_one:
  assumes "impl_keeps_scale impl"
    and "align ext impl pcs1 pcs2 init_guess p = Inr r"
  shows "optimal_scale r = 1"
proof -
  from assms(2) obtain state state1 result where
    prep: "align_prepare ext pcs1 pcs2 init_guess p = Inr state"
    and loop: "align_loop ext impl p state init_guess ((Results_init ext)\<lparr>nIterations := 0\<rparr>)
        = Inr (state1, result)"
    and fin: "align_finish state1 p result = Inr r"
    by (auto simp: align_def split: sum.splits)
  have "current_scale state1 = current_scale state"
  proof (rule align_loop_scale [OF _ loop])
    fix s q out s' out'
    assume "impl s q out = Inr (s', out')"
    with assms(1) show "current_scale s' = current_scale s"
      unfolding impl_keeps_scale_def by blast
  qed
  with align_prepare_frame(1) [OF prep] have "current_scale state1 = 1" by simp
  with fin show ?thesis
    by (auto simp: align_finish_def Let_def split: if_splits option.splits)
qed

theorem align_optimal_scale_is_one_witness:
  "impl_keeps_scale drift_impl
   \<and> (\<forall>s q out. \<exists>s' out'. drift_impl s q out = Inr (s', out') \<and> new_scale out' = 2)
   \<and> (\<exists>r. align shift_ext drift_impl raw3 raw3 0 raw_params = Inr r \<and> optimal_scale r = 1)"
  using align_optimal_scale_is_one [OF drift_impl_keeps_scale align_drift_run]
    align_drift_run drift_impl_keeps_scale
  by (simp add: drift_impl_def)

text \<open>
  C10, as the claim states it, fails: the hook receives the state by reference, and a
  hook that writes the scale 2 into it has that scale returned by \<^verbatim>\<open>align\<close>.
\<close>

theorem align_returns_scale_written_by_hook:
  "align shift_ext rescaling_impl raw3 raw3 0 raw_params
     = Inr \<lparr>nIterations = 0, terminationReason = Stalled, goodness = 1, optimal_tf = 0,
            optimal_scale = 2\<rparr>
   \<and> (2 :: real) \<noteq> 1"
  by (simp add: align_unfold rescaling_impl_def raw3_def raw_params_def)

text \<open>
  Whatever goodness the loop has left in the result, the code after the loop replaces it
  as soon as the preparation has found a largest layer.
\<close>

lemma align_finish_goodness:
  assumes "align_finish state p result = Inr r"
    and "layerOfLargestPc state \<noteq> []"
  shows "\<exists>m. mres state (layerOfLargestPc state) = Some m \<and> goodness r = correspondencesRatio m"
  using assms by (auto simp: align_finish_def Let_def split: option.splits)

text \<open>
  C3. Two clouds with the same two points in layer \<open>raw\<close>, matched point for point:
  the iteration has two pairings, fewer than three, so the hook reports failure and
  \<^verbatim>\<open>align\<close> returns with reason \<open>NoPairings\<close>. The loop assigns goodness 0 before
  its \<^verbatim>\<open>break\<close>, but the code after the loop then replaces it by the
  correspondences ratio of the largest layer: the goodness returned is 1.
\<close>

theorem align_no_pairings_goodness_overwritten:
  "align shift_ext (ICP_Horn_MultiCloud_impl_ICP_iteration pair_all_matcher still_solver)
       raw2 raw2 0 raw_params
     = Inr \<lparr>nIterations = 0, terminationReason = NoPairings, goodness = 1, optimal_tf = 0,
            optimal_scale = 1\<rparr>"
  by (simp add: align_unfold pair_all_matcher_def still_solver_def raw2_def raw_params_def)

section \<open>Properties of the preparation of align\<close>

lemma prepare_layer_plane_set:
  assumes "prepare_layer ext p (PT_LAYER_PLANE_CENTROIDS ext, m1) (largest, state) = Inr (largest', state')"
  shows "\<exists>mp. mps state' (PT_LAYER_PLANE_CENTROIDS ext) = Some mp \<and> plane_centroid_params p mp"
  using assms by (auto simp: prepare_layer_def Let_def plane_centroid_params_def)

lemma prepare_layer_other:
  assumes "prepare_layer ext p (name, m1) (largest, state) = Inr (largest', state')"
    and "k \<noteq> name"
  shows "mps state' k = mps state k"
  using assms
  by (auto simp: prepare_layer_def Let_def split: if_splits option.splits sum.splits)

lemma prepare_loop_plane:
  assumes "prepare_loop ext p layers (largest, state) = Inr (largest', state')"
    and "PT_LAYER_PLANE_CENTROIDS ext \<in> fst ` set layers
       \<or> (\<exists>mp. mps state (PT_LAYER_PLANE_CENTROIDS ext) = Some mp \<and> plane_centroid_params p mp)"
  shows "\<exists>mp. mps state' (PT_LAYER_PLANE_CENTROIDS ext) = Some mp \<and> plane_centroid_params p mp"
  using assms
proof (induction layers arbitrary: largest state)
  case Nil
  then show ?case by simp
next
  case (Cons kv1 rest)
  obtain name m1 where kv1: "kv1 = (name, m1)" by (cases kv1)
  from Cons.prems(1) obtain l1 s1 where
    one: "prepare_layer ext p (name, m1) (largest, state) = Inr (l1, s1)"
    and more: "prepare_loop ext p rest (l1, s1) = Inr (largest', state')"
    by (auto simp: kv1 split: sum.splits)
  have "PT_LAYER_PLANE_CENTROIDS ext \<in> fst ` set rest
       \<or> (\<exists>mp. mps s1 (PT_LAYER_PLANE_CENTROIDS ext) = Some mp \<and> plane_centroid_params p mp)"
  proof (cases "name = PT_LAYER_PLANE_CENTROIDS ext")
    case True
    with prepare_layer_plane_set [of ext p m1 largest state l1 s1] one show ?thesis by simp
  next
    case False
    with prepare_layer_other [OF one, of "PT_LAYER_PLANE_CENTROIDS ext"] Cons.prems(2) kv1
    show ?thesis by auto
  qed
  with Cons.IH [OF more] show ?case by simp
qed

text \<open>
  C8. When the first cloud has the reserved plane-centroid layer and the part of
  \<^verbatim>\<open>align\<close> before the loop succeeds, the state it hands to the loop holds, for that
  layer, the distance threshold \<^verbatim>\<open>thresholdDist + 2.0\<close>, the angular threshold 0,
  keep-only-closest true and decimation 1. The preparation runs once, before the first
  iteration: \<^verbatim>\<open>align\<close> is the loop started from that state, followed by the code
  after the loop.
\<close>

theorem align_prepare_plane_centroids:
  assumes "align_prepare ext pcs1 pcs2 init_guess p = Inr state"
    and "PT_LAYER_PLANE_CENTROIDS ext \<in> fst ` set (point_layers pcs1)"
  shows "(\<exists>mp. mps state (PT_LAYER_PLANE_CENTROIDS ext) = Some mp
            \<and> maxDistForCorrespondence mp = thresholdDist p + 2
            \<and> maxAngularDistForCorrespondence mp = 0
            \<and> onlyKeepTheClosest mp
            \<and> decimation_other_map_points mp = 1)
     \<and> align ext impl pcs1 pcs2 init_guess p =
         (case align_loop ext impl p state init_guess ((Results_init ext)\<lparr>nIterations := 0\<rparr>) of
            Inl e \<Rightarrow> Inl e
          | Inr (state1, result) \<Rightarrow> align_finish state1 p result)"
proof -
  from assms(1) obtain largest where
    "prepare_loop ext p (point_layers pcs1)
       (0, (ICP_State_init ext pcs1 pcs2)\<lparr>current_solution := init_guess\<rparr>) = Inr (largest, state)"
    by (auto simp: align_prepare_def prepareMatchingParams_def ICP_State_init_def
        split: if_splits sum.splits prod.splits)
  from prepare_loop_plane [OF this] assms(2)
  have "\<exists>mp. mps state (PT_LAYER_PLANE_CENTROIDS ext) = Some mp \<and> plane_centroid_params p mp"
    by simp
  then show ?thesis
    using assms(1) by (auto simp: plane_centroid_params_def align_def)
qed

lemma plane_cloud_prepare_run:
  "\<exists>state. align_prepare shift_ext plane_cloud plane_cloud 0 raw_params = Inr state"
  by (simp add: align_unfold plane_cloud_def raw_params_def)

theorem align_prepare_plane_centroids_witness:
  "PT_LAYER_PLANE_CENTROIDS shift_ext \<in> fst ` set (point_layers plane_cloud)
   \<and> (\<exists>state mp. align_prepare shift_ext plane_cloud plane_cloud 0 raw_params = Inr state
        \<and> mps state ''plane_centroids'' = Some mp
        \<and> maxDistForCorrespondence mp = 3
        \<and> maxAngularDistForCorrespondence mp = 0
        \<and> onlyKeepTheClosest mp
        \<and> decimation_other_map_points mp = 1)"
proof -
  have layer: "PT_LAYER_PLANE_CENTROIDS shift_ext \<in> fst ` set (point_layers plane_cloud)"
    by (simp add: shift_ext_def plane_cloud_def)
  from plane_cloud_prepare_run obtain state where
    run: "align_prepare shift_ext plane_cloud plane_cloud 0 raw_params = Inr state" ..
  from align_prepare_plane_centroids [OF run layer, of drift_impl] obtain mp where
    "mps state (PT_LAYER_PLANE_CENTROIDS shift_ext) = Some mp"
    "maxDistForCorrespondence mp = thresholdDist raw_params + 2"
    "maxAngularDistForCorrespondence mp = 0" "onlyKeepTheClosest mp"
    "decimation_other_map_points mp = 1"
    by blast
  then have "mps state ''plane_centroids'' = Some mp \<and> maxDistForCorrespondence mp = 3
      \<and> maxAngularDistForCorrespondence mp = 0 \<and> onlyKeepTheClosest mp
      \<and> decimation_other_map_points mp = 1"
    by (simp add: shift_ext_def raw_params_def)
  with run layer show ?thesis by blast
qed










lemma count_points_missing:
  assumes "(name, m1) \<in> set layers1"
    and "map_of weights name \<noteq> None"
    and "map_of layers2 name = None"
  shows "\<exists>e. count_points weights layers2 layers1 acc = Inl e"
  using assms(1)
proof (induction layers1 arbitrary: acc)
  case Nil
  then show ?case by simp
next
  case (Cons kv rest)
  obtain name' m' where kv: "kv = (name', m')" by (cases kv)
  obtain c1 c2 where acc: "acc = (c1, c2)" by (cases acc)
  show ?case
  proof (cases "(name, m1) \<in> set rest")
    case True
    from Cons.IH [OF True] show ?thesis
      by (auto simp: kv acc split: option.splits)
  next
    case False
    with Cons.prems kv have "name' = name" by simp
    with assms(2,3) show ?thesis
      by (auto simp: kv acc split: option.splits)
  qed
qed

text \<open>
  C6, as the code has it. \<^verbatim>\<open>align\<close> compares the numbers of point layers of the two
  clouds and fails with an assertion when they differ; it also fails when a layer of the
  first cloud that is listed in the weights is missing from the second
  (\<^verbatim>\<open>std::map::at\<close> throws, unless an earlier failure came first). Either failure
  happens in the part of \<^verbatim>\<open>align\<close> that precedes the loop: the error is the same
  whatever the per-iteration hook is, which is never run.
\<close>

theorem align_layer_mismatch_aborts:
  "(length (point_layers pcs1) \<noteq> length (point_layers pcs2) \<longrightarrow>
      align_prepare ext pcs1 pcs2 init_guess p = Inl AssertionFailed
      \<and> (\<forall>impl. align ext impl pcs1 pcs2 init_guess p = Inl AssertionFailed))
   \<and> ((\<exists>name \<in> fst ` set (point_layers pcs1).
          map_of (weight_pt2pt_layers p) name \<noteq> None \<and> name \<notin> fst ` set (point_layers pcs2)) \<longrightarrow>
      (\<exists>e. align_prepare ext pcs1 pcs2 init_guess p = Inl e
          \<and> (\<forall>impl. align ext impl pcs1 pcs2 init_guess p = Inl e)))"
proof (intro conjI impI)
  assume "length (point_layers pcs1) \<noteq> length (point_layers pcs2)"
  then show "align_prepare ext pcs1 pcs2 init_guess p = Inl AssertionFailed"
    by (simp add: align_prepare_def)
  then show "\<forall>impl. align ext impl pcs1 pcs2 init_guess p = Inl AssertionFailed"
    by (simp add: align_def)
next
  assume "\<exists>name \<in> fst ` set (point_layers pcs1).
      map_of (weight_pt2pt_layers p) name \<noteq> None \<and> name \<notin> fst ` set (point_layers pcs2)"
  then obtain name where name: "name \<in> fst ` set (point_layers pcs1)"
    and weighted: "map_of (weight_pt2pt_layers p) name \<noteq> None"
    and absent: "name \<notin> fst ` set (point_layers pcs2)"
    by blast
  from name obtain m1 where layer: "(name, m1) \<in> set (point_layers pcs1)"
    by auto
  from absent have missing: "map_of (point_layers pcs2) name = None"
    by (simp add: map_of_eq_None_iff)
  from count_points_missing [OF layer weighted missing] obtain e0 where
    "count_points (weight_pt2pt_layers p) (point_layers pcs2) (point_layers pcs1) (0, 0) = Inl e0"
    by blast
  then have "\<exists>e. align_prepare ext pcs1 pcs2 init_guess p = Inl e"
    by (simp add: align_prepare_def)
  then obtain e where e: "align_prepare ext pcs1 pcs2 init_guess p = Inl e" ..
  then have "\<forall>impl. align ext impl pcs1 pcs2 init_guess p = Inl e"
    by (simp add: align_def)
  with e show "\<exists>e. align_prepare ext pcs1 pcs2 init_guess p = Inl e
      \<and> (\<forall>impl. align ext impl pcs1 pcs2 init_guess p = Inl e)"
    by blast
qed

theorem align_layer_mismatch_aborts_witness:
  "length (point_layers raw3) \<noteq> length (point_layers empty_cloud)
   \<and> align_prepare shift_ext raw3 empty_cloud 0 raw_params = Inl AssertionFailed
   \<and> (\<forall>impl. align shift_ext impl raw3 empty_cloud 0 raw_params = Inl AssertionFailed)
   \<and> ''a'' \<in> fst ` set (point_layers cloud_a)
   \<and> map_of (weight_pt2pt_layers a_weight_params) ''a'' \<noteq> None
   \<and> ''a'' \<notin> fst ` set (point_layers cloud_b)
   \<and> (\<exists>e. align_prepare shift_ext cloud_a cloud_b 0 a_weight_params = Inl e
         \<and> (\<forall>impl. align shift_ext impl cloud_a cloud_b 0 a_weight_params = Inl e))"
proof -
  have one: "length (point_layers raw3) \<noteq> length (point_layers empty_cloud)"
    by (simp add: raw3_def empty_cloud_def)
  have two: "''a'' \<in> fst ` set (point_layers cloud_a)"
    "map_of (weight_pt2pt_layers a_weight_params) ''a'' \<noteq> None"
    "''a'' \<notin> fst ` set (point_layers cloud_b)"
    by (simp_all add: cloud_a_def cloud_b_def a_weight_params_def)
  from two have "\<exists>name \<in> fst ` set (point_layers cloud_a).
      map_of (weight_pt2pt_layers a_weight_params) name \<noteq> None
      \<and> name \<notin> fst ` set (point_layers cloud_b)"
    by blast
  with align_layer_mismatch_aborts [of raw3 empty_cloud shift_ext 0 raw_params]
    align_layer_mismatch_aborts [of cloud_a cloud_b shift_ext 0 a_weight_params]
    one two
  show ?thesis by blast
qed

text \<open>
  C6, as the claim states it, fails: the clouds \<open>cloud_a\<close> and \<open>cloud_b\<close> have one
  layer each, named \<open>a\<close> and \<open>b\<close>, and a plane; with no weights the name sets are never
  compared, the loop runs its three iterations and \<^verbatim>\<open>align\<close> returns a result.
\<close>

theorem align_layer_names_differ_returns:
  "set (map fst (point_layers cloud_a)) \<noteq> set (map fst (point_layers cloud_b))
   \<and> align shift_ext drift_impl cloud_a cloud_b 0 no_weight_params
     = Inr \<lparr>nIterations = 3, terminationReason = MaxIterations, goodness = 0, optimal_tf = 3,
            optimal_scale = 1\<rparr>"
  by (simp add: align_unfold drift_impl_def cloud_a_def cloud_b_def no_weight_params_def
      raw_params_def)

section \<open>Properties of Matcher_Points_Base::match\<close>

lemma weight_records_append:
  "weight_records w (chunks @ others) = weight_records w chunks @ weight_records w others"
  by (simp add: weight_records_def)

lemma weight_records_sum:
  "w \<noteq> [] \<Longrightarrow> sum_list (map fst (weight_records w chunks)) = length (concat (map snd chunks))"
  by (induction chunks) (auto simp: weight_records_def)

lemma match_layer_skipped:
  assumes "match_layer w impl pcLocal pose (name, glLayer) out = Inr out1"
    and "\<not> layer_is_matched w pcLocal name"
  shows "out1 = out"
  using assms
  by (auto simp: match_layer_def layer_is_matched_def split: if_splits option.splits)

lemma match_layer_matched:
  assumes "impl_appends impl"
    and "match_layer w impl pcLocal pose (name, glLayer) out = Inr out1"
    and "layer_is_matched w pcLocal name"
  shows "\<exists>gl lc. glLayer = Some gl \<and> map_of (point_layers pcLocal) name = Some (Some lc)
      \<and> out1 = out\<lparr>paired_points := paired_points out @ added_by impl gl lc pose out,
                    point_weights := point_weights out @
                      weight_records w [(name, added_by impl gl lc pose out)]\<rparr>"
proof -
  from assms(3) obtain lcLayer where lcl: "map_of (point_layers pcLocal) name = Some lcLayer"
    and w: "w = [] \<or> map_of w name \<noteq> None"
    by (auto simp: layer_is_matched_def)
  from assms(2) lcl w obtain gl lc out0 where
    gl: "glLayer = Some gl" and lc: "lcLayer = Some lc"
    and call: "impl gl lc pose out = Inr out0"
    and rest: "(if w \<noteq> [] \<and> length (paired_points out0) \<noteq> length (paired_points out)
         then (case map_of w name of
                 None \<Rightarrow> Inl OutOfRange
               | Some wv \<Rightarrow> Inr (out0\<lparr>point_weights := point_weights out0 @
                    [(size_t_minus (length (paired_points out0)) (length (paired_points out)), wv)]\<rparr>))
         else Inr out0) = Inr out1"
    by (auto simp: match_layer_def Let_def split: if_splits option.splits sum.splits)
  from assms(1) call obtain new where
    new: "out0 = out\<lparr>paired_points := paired_points out @ new\<rparr>"
    unfolding impl_appends_def by blast
  have added: "added_by impl gl lc pose out = new"
    by (simp add: added_by_def call new)
  have len: "size_t_minus (length (paired_points out0)) (length (paired_points out)) = length new"
    by (simp add: new size_t_minus_def)
  have "out1 = out\<lparr>paired_points := paired_points out @ new,
                   point_weights := point_weights out @ weight_records w [(name, new)]\<rparr>"
    using rest w len
    by (auto simp: new weight_records_def split: if_splits option.splits)
  with gl lc lcl added show ?thesis by simp
qed

lemma match_loop_contributions:
  assumes "impl_appends impl"
    and "match_loop w impl pcLocal pose layers out = Inr out'"
  shows "map fst (layer_contributions w impl pcLocal pose layers out)
        = filter (layer_is_matched w pcLocal) (map fst layers)
      \<and> out' = out\<lparr>paired_points := paired_points out @
                      concat (map snd (layer_contributions w impl pcLocal pose layers out)),
                    point_weights := point_weights out @
                      weight_records w (layer_contributions w impl pcLocal pose layers out)\<rparr>"
  using assms(2)
proof (induction layers arbitrary: out)
  case Nil
  then show ?case by (simp add: weight_records_def)
next
  case (Cons kv rest)
  obtain name glLayer where kv: "kv = (name, glLayer)" by (cases kv)
  from Cons.prems obtain out1 where
    one: "match_layer w impl pcLocal pose (name, glLayer) out = Inr out1"
    and others: "match_loop w impl pcLocal pose rest out1 = Inr out'"
    by (auto simp: kv split: sum.splits)
  note IH = Cons.IH [OF others]
  show ?case
  proof (cases "layer_is_matched w pcLocal name")
    case False
    with match_layer_skipped [OF one] IH kv show ?thesis by simp
  next
    case True
    from match_layer_matched [OF assms(1) one True] obtain gl lc where
      gl: "glLayer = Some gl" and lc: "map_of (point_layers pcLocal) name = Some (Some lc)"
      and out1: "out1 = out\<lparr>paired_points := paired_points out @ added_by impl gl lc pose out,
                         point_weights := point_weights out @
                           weight_records w [(name, added_by impl gl lc pose out)]\<rparr>"
      by blast
    have unfold: "layer_contributions w impl pcLocal pose (kv # rest) out
        = (name, added_by impl gl lc pose out) # layer_contributions w impl pcLocal pose rest out1"
      using True gl lc by (simp add: kv out1 Let_def)
    show ?thesis
      unfolding unfold
      using True IH kv
        weight_records_append [of w "[(name, added_by impl gl lc pose out)]"
          "layer_contributions w impl pcLocal pose rest out1"]
      by (simp add: out1)
  qed
qed

text \<open>
  C7, as the code has it, for a per-layer search that only appends point-point pairings.
  Let the contributions be, for each matched layer in the order of the layers, the
  pairings that the per-layer search adds for that layer. The pairings returned are
  the contributions one after the other; the weight records are, when there are weights,
  one record for each matched layer with a non-empty contribution, holding the number of
  pairings of that contribution and the weight of the layer, in layer order, so that the
  counts add up to the number of pairings; when there are no weights there is no record.
\<close>

theorem match_weight_records:
  assumes "impl_appends implMatchOneLayer"
    and "match_points weight_layers implMatchOneLayer pcGlobal pcLocal localPose = Inr out"
  shows "map fst (layer_contributions weight_layers implMatchOneLayer pcLocal localPose
                    (point_layers pcGlobal) Pairings_init)
       = filter (layer_is_matched weight_layers pcLocal) (map fst (point_layers pcGlobal))
     \<and> paired_points out
       = concat (map snd (layer_contributions weight_layers implMatchOneLayer pcLocal localPose
                            (point_layers pcGlobal) Pairings_init))
     \<and> point_weights out
       = weight_records weight_layers
           (layer_contributions weight_layers implMatchOneLayer pcLocal localPose
              (point_layers pcGlobal) Pairings_init)
     \<and> (weight_layers \<noteq> [] \<longrightarrow>
          sum_list (map fst (point_weights out)) = length (paired_points out))
     \<and> (weight_layers = [] \<longrightarrow> point_weights out = [])"
proof -
  let ?chunks = "layer_contributions weight_layers implMatchOneLayer pcLocal localPose
      (point_layers pcGlobal) Pairings_init"
  from match_loop_contributions [OF assms(1) assms(2) [unfolded match_points_def]]
  have names: "map fst ?chunks
      = filter (layer_is_matched weight_layers pcLocal) (map fst (point_layers pcGlobal))"
    and out: "out = Pairings_init\<lparr>paired_points := paired_points Pairings_init @ concat (map snd ?chunks),
        point_weights := point_weights Pairings_init @ weight_records weight_layers ?chunks\<rparr>"
    by blast+
  have pp: "paired_points out = concat (map snd ?chunks)"
    and pw: "point_weights out = weight_records weight_layers ?chunks"
    by (subst out, simp add: Pairings_init_def)+
  have "weight_layers \<noteq> [] \<longrightarrow> sum_list (map fst (point_weights out)) = length (paired_points out)"
    using weight_records_sum [of weight_layers ?chunks] by (simp add: pp pw)
  moreover have "weight_layers = [] \<longrightarrow> point_weights out = []"
    by (simp add: pw weight_records_def)
  ultimately show ?thesis using names pp pw by blast
qed

lemma pair_by_index_appends: "impl_appends pair_by_index"
  by (auto simp: impl_appends_def pair_by_index_def)

lemma match_weights_run:
  "match_points [(''plane_centroids'', 2), (''raw'', 1)] pair_by_index plane_cloud plane_cloud 0
     = Inr \<lparr>paired_points = [(0, 0), (0, 0), (1, 1), (2, 2)], point_weights = [(1, 2), (3, 1)],
            paired_planes = [], paired_pt2pl = []\<rparr>"
  by (simp add: match_points_def match_layer_def pair_by_index_def Pairings_init_def
      plane_cloud_def three_points_def upt_conv_Cons size_t_minus_def)

lemma match_weights_contributions:
  "layer_contributions [(''plane_centroids'', 2), (''raw'', 1)] pair_by_index plane_cloud 0
       (point_layers plane_cloud) Pairings_init
     = [(''plane_centroids'', [(0, 0)]), (''raw'', [(0, 0), (1, 1), (2, 2)])]"
  by (simp add: layer_is_matched_def added_by_def weight_records_def pair_by_index_def
      Pairings_init_def plane_cloud_def three_points_def upt_conv_Cons Let_def)

theorem match_weight_records_witness:
  "impl_appends pair_by_index
   \<and> layer_contributions [(''plane_centroids'', 2), (''raw'', 1)] pair_by_index plane_cloud 0
         (point_layers plane_cloud) Pairings_init
       = [(''plane_centroids'', [(0, 0)]), (''raw'', [(0, 0), (1, 1), (2, 2)])]
   \<and> (\<exists>out. match_points [(''plane_centroids'', 2), (''raw'', 1)] pair_by_index plane_cloud
               plane_cloud 0 = Inr out
        \<and> paired_points out = [(0, 0), (0, 0), (1, 1), (2, 2)]
        \<and> point_weights out = [(1, 2), (3, 1)]
        \<and> sum_list (map fst (point_weights out)) = length (paired_points out))"
  using match_weight_records [OF pair_by_index_appends match_weights_run] match_weights_run
    pair_by_index_appends match_weights_contributions
  by (simp add: weight_records_def)

text \<open>
  C7, as the claim states it, fails without weights: three pairings and no record, so
  the counts add up to 0.
\<close>

lemma match_no_weights_run:
  "match_points [] pair_by_index raw3 raw3 0
     = Inr \<lparr>paired_points = [(0, 0), (1, 1), (2, 2)], point_weights = [],
            paired_planes = [], paired_pt2pl = []\<rparr>"
  by (simp add: match_points_def match_layer_def pair_by_index_def Pairings_init_def raw3_def
      three_points_def upt_conv_Cons)

theorem match_no_weights_no_records:
  "match_points [] pair_by_index raw3 raw3 0
     = Inr \<lparr>paired_points = [(0, 0), (1, 1), (2, 2)], point_weights = [],
            paired_planes = [], paired_pt2pl = []\<rparr>
   \<and> sum_list (map fst ([] :: (nat \<times> real) list)) \<noteq> length [(0, 0), (1, 1), (2 :: nat, 2 :: nat)]"
  using match_no_weights_run by simp

end
